theory Spec2Isabelle
  imports
    Main
    "HOL-Library.Char_ord"
    "HOL-Library.List_Lexorder"
    "HOL-Library.Product_Lexorder"
begin

section \<open>Strings of the source language\<close>

text \<open>
  A Python \<open>str\<close> is a sequence of code points. A character of this development is a code
  point below 256, so a \<^typ>\<open>string\<close> is a Python string over that range; strings are
  compared by code point, lexicographically, as Python does.
\<close>

definition lf :: char where
  "lf = CHR 0x0A"

definition cr :: char where
  "cr = CHR 0x0D"

definition dquote :: char where
  "dquote = CHR 0x22"

definition squote :: char where
  "squote = CHR 0x27"

definition code_point :: "char \<Rightarrow> nat" where
  "code_point c = of_char c"

text \<open>The line boundaries of \<open>str.splitlines\<close> below 256:
  LF, VT, FF, CR, FS, GS, RS and NEL (CR LF counts once).\<close>

definition is_linebreak :: "char \<Rightarrow> bool" where
  "is_linebreak c = (code_point c \<in> {10, 11, 12, 13, 28, 29, 30, 133})"

text \<open>The class \<open>\s\<close> of a \<open>str\<close> pattern: the code points for which \<open>str.isspace\<close> holds.\<close>

definition is_space :: "char \<Rightarrow> bool" where
  "is_space c = (code_point c \<in> {9, 10, 11, 12, 13, 28, 29, 30, 31, 32, 133, 160})"

definition is_ascii_digit :: "char \<Rightarrow> bool" where
  "is_ascii_digit c = (48 \<le> code_point c \<and> code_point c \<le> 57)"

text \<open>The class \<open>\w\<close> of a \<open>str\<close> pattern: alphanumeric code points and the underscore.
  Below 256 these are the ASCII letters and digits and the Latin-1 letters, superscript
  digits and vulgar fractions.\<close>

definition is_word :: "char \<Rightarrow> bool" where
  "is_word c =
     (let n = code_point c in
        (48 \<le> n \<and> n \<le> 57) \<or> (65 \<le> n \<and> n \<le> 90) \<or> n = 95 \<or> (97 \<le> n \<and> n \<le> 122)
        \<or> n \<in> {170, 178, 179, 181, 185, 186, 188, 189, 190}
        \<or> (192 \<le> n \<and> n \<le> 214) \<or> (216 \<le> n \<and> n \<le> 246) \<or> (248 \<le> n \<and> n \<le> 255))"

text \<open>\<open>str.splitlines()\<close>: the text is cut at every line boundary, the boundaries are
  dropped, and a final boundary opens no further line.\<close>

fun splitlines_from :: "string \<Rightarrow> string \<Rightarrow> string list" where
  "splitlines_from cur [] = (if cur = [] then [] else [cur])"
| "splitlines_from cur [c] =
     (if is_linebreak c then [cur] else [cur @ [c]])"
| "splitlines_from cur (c # d # ds) =
     (if c = cr \<and> d = lf then cur # splitlines_from [] ds
      else if is_linebreak c then cur # splitlines_from [] (d # ds)
      else splitlines_from (cur @ [c]) (d # ds))"

definition splitlines :: "string \<Rightarrow> string list" where
  "splitlines s = splitlines_from [] s"

text \<open>\<open>str.split(sep)\<close> for a one-character separator, and \<open>sep.join\<close>.\<close>

fun split_sep :: "char \<Rightarrow> string \<Rightarrow> string list" where
  "split_sep sep [] = [[]]"
| "split_sep sep (x # xs) =
     (if x = sep then [] # split_sep sep xs
      else (case split_sep sep xs of
              [] \<Rightarrow> [[x]]
            | y # ys \<Rightarrow> (x # y) # ys))"

fun join_sep :: "char \<Rightarrow> string list \<Rightarrow> string" where
  "join_sep sep [] = []"
| "join_sep sep [x] = x"
| "join_sep sep (x # y # ys) = x @ sep # join_sep sep (y # ys)"

definition startswith :: "string \<Rightarrow> string \<Rightarrow> bool" where
  "startswith s p = (take (length p) s = p)"

definition endswith :: "string \<Rightarrow> string \<Rightarrow> bool" where
  "endswith s p = (length p \<le> length s \<and> drop (length s - length p) s = p)"

section \<open>The regular expression of the parser\<close>

text \<open>
  The fragment of \<open>re\<close> that the pattern of \<open>parse_spelling_warnings\<close> uses: single
  characters and character classes, greedy \<open>*\<close> and \<open>?\<close>, concatenation and capture groups.
  \<open>rmatch r (s, gs)\<close> lists every way in which \<open>r\<close> matches a prefix of \<open>s\<close>, as the rest
  of the input with the groups captured so far, in the order in which the backtracking
  matcher tries them: a greedy operator tries its longer alternative first. The match that
  \<open>re\<close> reports is the first of the list. A group is recorded when it closes, so for a
  pattern whose groups are neither nested nor repeated the captures come in the order of the
  group numbers.
\<close>

datatype re_atom = AnyChar | WordChar | SpaceChar | Lit char

datatype regex =
    Atom re_atom
  | Star regex
  | Opt regex
  | Seq regex regex
  | Group regex

fun atom_matches :: "re_atom \<Rightarrow> char \<Rightarrow> bool" where
  "atom_matches AnyChar c = (c \<noteq> lf)"
| "atom_matches WordChar c = is_word c"
| "atom_matches SpaceChar c = is_space c"
| "atom_matches (Lit x) c = (c = x)"

fun rmatch :: "regex \<Rightarrow> string \<times> string list \<Rightarrow> (string \<times> string list) list" where
  "rmatch (Atom a) st =
     (case fst st of
        [] \<Rightarrow> []
      | c # cs \<Rightarrow> if atom_matches a c then [(cs, snd st)] else [])"
| "rmatch (Star r) st =
     concat (map (\<lambda>st'. if length (fst st') < length (fst st) then rmatch (Star r) st' else [])
                 (rmatch r st)) @ [st]"
| "rmatch (Opt r) st = rmatch r st @ [st]"
| "rmatch (Seq r1 r2) st = concat (map (rmatch r2) (rmatch r1 st))"
| "rmatch (Group r) st =
     map (\<lambda>st'. (fst st', snd st' @ [take (length (fst st) - length (fst st')) (fst st)]))
         (rmatch r st)"

text \<open>\<open>re.search\<close>: the leftmost start position at which the pattern matches, and there
  the first match; \<open>groups()\<close> of that match.\<close>

fun re_search_groups :: "regex \<Rightarrow> string \<Rightarrow> string list option" where
  "re_search_groups r s =
     (case rmatch r (s, []) of
        st # _ \<Rightarrow> Some (snd st)
      | [] \<Rightarrow> (case s of [] \<Rightarrow> None | _ # s' \<Rightarrow> re_search_groups r s'))"

declare re_search_groups.simps [simp del]

text \<open>The pattern \<^verbatim>\<open>(.*):(\w*):\s\((\w*)\)\s?(\w*)\s?(.*)\<close>.\<close>

definition warning_pattern :: regex where
  "warning_pattern =
     Seq (Group (Star (Atom AnyChar)))
    (Seq (Atom (Lit (CHR '':'')))
    (Seq (Group (Star (Atom WordChar)))
    (Seq (Atom (Lit (CHR '':'')))
    (Seq (Atom SpaceChar)
    (Seq (Atom (Lit (CHR ''('')))
    (Seq (Group (Star (Atom WordChar)))
    (Seq (Atom (Lit (CHR '')'')))
    (Seq (Opt (Atom SpaceChar))
    (Seq (Group (Star (Atom WordChar)))
    (Seq (Opt (Atom SpaceChar))
         (Group (Star (Atom AnyChar)))))))))))))"

section \<open>Paths\<close>

text \<open>
  A \<open>pathlib\<close> path of the POSIX flavour is given by its normalised string \<open>str(p)\<close>: the
  root (nothing, \<open>/\<close>, or \<open>//\<close> for exactly two leading slashes) followed by the components
  joined with \<open>/\<close>, where empty components and \<open>.\<close> are dropped, and \<open>.\<close> for the empty
  path. Two paths are equal when these strings are, and they are ordered by the lists
  \<open>str(p).split('/')\<close>, compared lexicographically, as \<open>pathlib\<close> does from Python 3.12 on.
  (Earlier versions compare the list of the root and the components; that is a linear order
  too, which differs in where it puts relative paths among absolute ones.)
\<close>

datatype Path = Path (as_posix: string)

definition splitroot :: "string \<Rightarrow> string \<times> string" where
  "splitroot p =
     (if take 1 p \<noteq> ''/'' then ([], p)
      else if take 1 (drop 1 p) \<noteq> ''/'' \<or> take 1 (drop 2 p) = ''/'' then (''/'', drop 1 p)
      else (''//'', drop 2 p))"

definition normalise :: "string \<Rightarrow> string" where
  "normalise p =
     (let (root, rel) = splitroot p;
          tail = filter (\<lambda>x. x \<noteq> [] \<and> x \<noteq> ''.'') (split_sep (CHR ''/'') rel);
          s = root @ join_sep (CHR ''/'') tail
      in if s = [] then ''.'' else s)"

definition mkPath :: "string \<Rightarrow> Path" where
  "mkPath s = Path (normalise s)"

text \<open>\<open>posixpath.join\<close> of two segments, and the operator \<open>/\<close> of a path and a string.\<close>

definition posix_join :: "string \<Rightarrow> string \<Rightarrow> string" where
  "posix_join a b =
     (if startswith b ''/'' then b
      else if a = [] \<or> endswith a ''/'' then a @ b
      else a @ ''/'' @ b)"

definition truediv :: "Path \<Rightarrow> string \<Rightarrow> Path" where
  "truediv p key = mkPath (posix_join (as_posix p) key)"

definition parts_normcase :: "Path \<Rightarrow> string list" where
  "parts_normcase p = split_sep (CHR ''/'') (as_posix p)"

instantiation Path :: linorder
begin

definition less_eq_Path :: "Path \<Rightarrow> Path \<Rightarrow> bool" where
  "less_eq_Path p q = (parts_normcase p \<le> parts_normcase q)"

definition less_Path :: "Path \<Rightarrow> Path \<Rightarrow> bool" where
  "less_Path p q = (parts_normcase p < parts_normcase q)"

instance
proof
  have join_split: "join_sep c (split_sep c s) = s" for c s
  proof (induction s)
    case Nil
    show ?case by simp
  next
    case (Cons x xs)
    obtain y ys where sp: "split_sep c xs = y # ys"
      by (cases xs; cases "split_sep c xs") (auto split: list.splits if_splits)
    show ?case
    proof (cases "x = c")
      case True
      with Cons sp show ?thesis by simp
    next
      case False
      with Cons sp show ?thesis by (cases ys) auto
    qed
  qed
  have inj: "p = q" if "parts_normcase p = parts_normcase q" for p q :: Path
  proof -
    from that have "join_sep (CHR ''/'') (split_sep (CHR ''/'') (as_posix p))
                  = join_sep (CHR ''/'') (split_sep (CHR ''/'') (as_posix q))"
      by (simp add: parts_normcase_def)
    then have "as_posix p = as_posix q"
      by (simp only: join_split)
    then show ?thesis
      by (simp add: Path.expand)
  qed
  fix x y z :: Path
  show "(x < y) = (x \<le> y \<and> \<not> y \<le> x)"
    by (auto simp: less_Path_def less_eq_Path_def)
  show "x \<le> x"
    by (simp add: less_eq_Path_def)
  show "x \<le> y \<Longrightarrow> y \<le> z \<Longrightarrow> x \<le> z"
    by (simp add: less_eq_Path_def)
  show "x \<le> y \<Longrightarrow> y \<le> x \<Longrightarrow> x = y"
    using inj by (simp add: less_eq_Path_def)
  show "x \<le> y \<or> y \<le> x"
    by (auto simp: less_eq_Path_def)
qed

end

section \<open>Conversion of a string to an integer\<close>

datatype pyexn = ValueError | OtherError string

text \<open>
  \<open>int(s)\<close> in base ten: surrounding white space is stripped, a sign may come first, and the
  rest is decimal digits in which single underscores may separate digits. Any other string
  raises \<open>ValueError\<close>, and so does a string of more digits than the interpreter's limit for
  integer string conversion (4300 unless configured otherwise). The white space that the
  conversion strips is the ASCII white space of C and the white space beyond ASCII; the
  separators FS, GS, RS and US are not stripped.
\<close>

definition int_max_str_digits :: nat where
  "int_max_str_digits = 4300"

definition is_int_space :: "char \<Rightarrow> bool" where
  "is_int_space c = (code_point c \<in> {9, 10, 11, 12, 13, 32, 133, 160})"

definition int_strip :: "string \<Rightarrow> string" where
  "int_strip s = rev (dropWhile is_int_space (rev (dropWhile is_int_space s)))"

fun digits_ok :: "string \<Rightarrow> bool" where
  "digits_ok [] = False"
| "digits_ok [c] = is_ascii_digit c"
| "digits_ok (c # d # ds) =
     (is_ascii_digit c \<and> (if d = CHR ''_'' then digits_ok ds else digits_ok (d # ds)))"

definition digit_value :: "char \<Rightarrow> int" where
  "digit_value c = int (code_point c) - 48"

definition decimal_value :: "string \<Rightarrow> int" where
  "decimal_value ds = foldl (\<lambda>acc c. 10 * acc + digit_value c) 0 ds"

definition py_int :: "string \<Rightarrow> pyexn + int" where
  "py_int s =
     (let t = int_strip s;
          (sign, body) = (case t of
                            c # cs \<Rightarrow> if c = CHR ''-'' then (- 1, cs)
                                      else if c = CHR ''+'' then (1, cs) else (1, t)
                          | [] \<Rightarrow> (1, t));
          ds = filter (\<lambda>c. c \<noteq> CHR ''_'') body
      in if \<not> digits_ok body then Inl ValueError
         else if int_max_str_digits < length ds then Inl ValueError
         else Inr (sign * decimal_value ds))"

section \<open>Spelling errors and their parser\<close>

record SpellingError =
  file_path :: "Path option"
  line_no :: "int option"
  spelling :: "string option"
  suggestion :: "string option"
  context_line :: "string option"
  message :: string

text \<open>\<open>__eq__\<close> compares the tuples of five fields; \<open>suggestion\<close> is not among them.\<close>

definition eq_SpellingError :: "SpellingError \<Rightarrow> SpellingError \<Rightarrow> bool" where
  "eq_SpellingError self other =
     (let left = (file_path self, line_no self, spelling self, context_line self, message self);
          right = (file_path other, line_no other, spelling other, context_line other,
                   message other)
      in left = right)"

definition ne_SpellingError :: "SpellingError \<Rightarrow> SpellingError \<Rightarrow> bool" where
  "ne_SpellingError self other = (\<not> eq_SpellingError self other)"

text \<open>\<open>x or d\<close>: the default replaces \<open>None\<close> and every other falsy value. A path is never
  falsy, zero and the empty string are.\<close>

definition or_path :: "Path option \<Rightarrow> Path \<Rightarrow> Path" where
  "or_path x d = (case x of None \<Rightarrow> d | Some p \<Rightarrow> p)"

definition or_int :: "int option \<Rightarrow> int \<Rightarrow> int" where
  "or_int x d = (case x of None \<Rightarrow> d | Some n \<Rightarrow> if n = 0 then d else n)"

definition or_text :: "string \<Rightarrow> string \<Rightarrow> string" where
  "or_text s d = (if s = [] then d else s)"

definition or_str :: "string option \<Rightarrow> string \<Rightarrow> string" where
  "or_str x d = (case x of None \<Rightarrow> d | Some s \<Rightarrow> or_text s d)"

text \<open>\<open>__lt__\<close> compares two tuples, which Python does lexicographically.\<close>

definition lt_SpellingError :: "SpellingError \<Rightarrow> SpellingError \<Rightarrow> bool" where
  "lt_SpellingError self other =
     (let file_path_a = or_path (file_path self) (mkPath ''/'');
          file_path_b = or_path (file_path other) (mkPath ''/'');
          line_no_a = or_int (line_no self) 0;
          line_no_b = or_int (line_no other) 0;
          context_line_a = or_str (context_line self) [];
          context_line_b = or_str (context_line other) [];
          left = (file_path_a, line_no_a, context_line_a, or_str (spelling self) [],
                  or_text (message self) []);
          right = (file_path_b, line_no_b, context_line_b, or_str (spelling other) [],
                   or_text (message other) [])
      in left < right)"

text \<open>The record of a line that is kept as its raw message only.\<close>

definition message_only :: "string \<Rightarrow> SpellingError" where
  "message_only sphinx_warning =
     \<lparr>file_path = None, line_no = None, spelling = None, suggestion = None,
      context_line = None, message = sphinx_warning\<rparr>"

text \<open>The body of the \<open>try\<close>: the record built from the five groups. Converting the second
  group is the step that can raise.\<close>

definition build_error :: "Path \<Rightarrow> string list \<Rightarrow> string \<Rightarrow> pyexn + SpellingError" where
  "build_error docs_dir warning_parts sphinx_warning =
     (case (if warning_parts ! 1 \<noteq> ''None'' \<and> warning_parts ! 1 \<noteq> []
            then map_sum id Some (py_int (warning_parts ! 1)) else Inr None) of
        Inl e \<Rightarrow> Inl e
      | Inr n \<Rightarrow>
          Inr \<lparr>file_path = Some (truediv docs_dir (warning_parts ! 0)),
               line_no = n,
               spelling = Some (warning_parts ! 2),
               suggestion = (if warning_parts ! 3 \<noteq> [] then Some (warning_parts ! 3) else None),
               context_line = Some (warning_parts ! 4),
               message = sphinx_warning\<rparr>)"

text \<open>One round of the loop for a non-empty line: the record that is appended.\<close>

definition parse_warning :: "Path \<Rightarrow> string \<Rightarrow> SpellingError" where
  "parse_warning docs_dir sphinx_warning =
     (case re_search_groups warning_pattern sphinx_warning of
        None \<Rightarrow> message_only sphinx_warning
      | Some warning_parts \<Rightarrow>
          if warning_parts \<noteq> [] \<and> length warning_parts = 5 then
            (case build_error docs_dir warning_parts sphinx_warning of
               Inr e \<Rightarrow> e
             | Inl _ \<Rightarrow> message_only sphinx_warning)
          else message_only sphinx_warning)"

fun parse_loop :: "Path \<Rightarrow> string list \<Rightarrow> SpellingError list \<Rightarrow> SpellingError list" where
  "parse_loop docs_dir [] sphinx_spelling_errors = sphinx_spelling_errors"
| "parse_loop docs_dir (sphinx_warning # rest) sphinx_spelling_errors =
     (if sphinx_warning = [] then parse_loop docs_dir rest sphinx_spelling_errors
      else parse_loop docs_dir rest
             (sphinx_spelling_errors @ [parse_warning docs_dir sphinx_warning]))"

definition parse_spelling_warnings :: "string \<Rightarrow> Path \<Rightarrow> SpellingError list" where
  "parse_spelling_warnings warning_text docs_dir =
     parse_loop docs_dir (splitlines warning_text) []"

section \<open>The summary of spelling errors\<close>

text \<open>
  The reporter writes to a console and reads the file system. Both are made explicit: the
  console is the list of the calls of \<open>console.print\<close> made so far, each with its
  positional arguments as they are before the console renders them, and the environment
  gives what the file system and the collaborators answer. Rendering (markup, wrapping) is
  the console's business; it may reject its arguments, which ends the report with that
  exception.
\<close>

record environment =
  resolve :: "Path \<Rightarrow> pyexn + Path"
  isfile :: "Path \<Rightarrow> bool"
  prepare_code_snippet :: "Path \<Rightarrow> int \<Rightarrow> pyexn + string"
  print_raises :: "string list \<Rightarrow> pyexn option"

type_synonym console = "string list list"

type_synonym action = "console \<Rightarrow> pyexn option \<times> console"

definition console_print :: "environment \<Rightarrow> string list \<Rightarrow> action" where
  "console_print env objects out =
     (case print_raises env objects of
        Some e \<Rightarrow> (Some e, out)
      | None \<Rightarrow> (None, out @ [objects]))"

definition skip :: action where
  "skip out = (None, out)"

definition raise :: "pyexn \<Rightarrow> action" where
  "raise e out = (Some e, out)"

definition and_then :: "action \<Rightarrow> action \<Rightarrow> action" where
  "and_then f g out = (case f out of (Some e, out') \<Rightarrow> (Some e, out') | (None, out') \<Rightarrow> g out')"

fun in_order :: "action list \<Rightarrow> action" where
  "in_order [] = skip"
| "in_order (f # fs) = and_then f (in_order fs)"

text \<open>Decimal notation of an integer, and \<open>{n:3}\<close>: right-aligned in a field of width 3.\<close>

definition digit_char :: "nat \<Rightarrow> char" where
  "digit_char n = char_of (48 + n)"

fun str_nat :: "nat \<Rightarrow> string" where
  "str_nat n = (if n < 10 then [digit_char n] else str_nat (n div 10) @ [digit_char (n mod 10)])"

definition str_int :: "int \<Rightarrow> string" where
  "str_int i = (if i < 0 then CHR ''-'' # str_nat (nat (- i)) else str_nat (nat i))"

definition format_width :: "nat \<Rightarrow> string \<Rightarrow> string" where
  "format_width w s = replicate (w - length s) (CHR '' '') @ s"

definition truthy_str :: "string option \<Rightarrow> bool" where
  "truthy_str x = (case x of None \<Rightarrow> False | Some s \<Rightarrow> s \<noteq> [])"

definition truthy_int :: "int option \<Rightarrow> bool" where
  "truthy_int x = (case x of None \<Rightarrow> False | Some n \<Rightarrow> n \<noteq> 0)"

definition display_error :: "environment \<Rightarrow> SpellingError \<Rightarrow> action" where
  "display_error env error =
     in_order
       [console_print env [message error],
        console_print env [],
        (case file_path error of
           None \<Rightarrow> skip
         | Some p \<Rightarrow>
             in_order
               [(case resolve env p of
                   Inl e \<Rightarrow> raise e
                 | Inr q \<Rightarrow> console_print env [''File path: '' @ as_posix q]),
                (if truthy_str (spelling error)
                 then console_print env
                        [''[red]Incorrect Spelling: '' @ [squote] @ the (spelling error) @ [squote]]
                 else skip),
                (if truthy_str (suggestion error)
                 then console_print env
                        [''Suggested Spelling: '' @ [squote] @ the (suggestion error) @ [squote]]
                 else skip),
                (if truthy_str (context_line error)
                 then console_print env
                        [''Line with Error: '' @ [squote] @ the (context_line error) @ [squote]]
                 else skip),
                (if \<not> endswith (as_posix p) ''<unknown>'' \<and> truthy_int (line_no error)
                    \<and> isfile env p
                 then in_order
                        [console_print env [''Line Number: '' @ str_int (the (line_no error))],
                         (case prepare_code_snippet env p (the (line_no error)) of
                            Inl e \<Rightarrow> raise e
                          | Inr snippet \<Rightarrow> console_print env [snippet])]
                 else skip)])]"

text \<open>
  \<open>sorted\<close> is a stable sort that compares with \<open><\<close> only: insertion from the right, each
  element going in front of the first one that is not smaller than it.
\<close>

fun insort_lt :: "('a \<Rightarrow> 'a \<Rightarrow> bool) \<Rightarrow> 'a \<Rightarrow> 'a list \<Rightarrow> 'a list" where
  "insort_lt lt x [] = [x]"
| "insort_lt lt x (y # ys) = (if lt y x then y # insort_lt lt x ys else x # y # ys)"

definition py_sorted :: "('a \<Rightarrow> 'a \<Rightarrow> bool) \<Rightarrow> 'a list \<Rightarrow> 'a list" where
  "py_sorted lt xs = foldr (insort_lt lt) xs []"

text \<open>The order of lists of records and of the items of the dictionary: the first position
  at which two sequences differ (by \<open>==\<close>) decides, by \<open><\<close>.\<close>

fun list_lt :: "SpellingError list \<Rightarrow> SpellingError list \<Rightarrow> bool" where
  "list_lt [] [] = False"
| "list_lt [] (y # ys) = True"
| "list_lt (x # xs) [] = False"
| "list_lt (x # xs) (y # ys) =
     (if eq_SpellingError x y then list_lt xs ys else lt_SpellingError x y)"

definition item_lt ::
  "string \<times> SpellingError list \<Rightarrow> string \<times> SpellingError list \<Rightarrow> bool" where
  "item_lt a b = (if fst a \<noteq> fst b then fst a < fst b else list_lt (snd a) (snd b))"

fun display_errors :: "environment \<Rightarrow> nat \<Rightarrow> SpellingError list \<Rightarrow> action" where
  "display_errors env warning_no [] = skip"
| "display_errors env warning_no (error # errors) =
     in_order
       [console_print env
          [replicate 30 (CHR ''-''), ''Error '' @ format_width 3 (str_nat warning_no),
           replicate 30 (CHR ''-'')],
        display_error env error,
        display_errors env (Suc warning_no) errors]"

fun display_packages :: "environment \<Rightarrow> (string \<times> SpellingError list) list \<Rightarrow> action" where
  "display_packages env [] = skip"
| "display_packages env ((package_name, errors) # items) =
     in_order
       [(if package_name \<noteq> []
         then console_print env
                [replicate 30 (CHR ''=''), '' [bright_blue]'' @ package_name @ ''[/] '',
                 replicate 30 (CHR ''='')]
         else console_print env
                [replicate 30 (CHR ''=''), '' [bright_blue]General[/] '',
                 replicate 30 (CHR ''='')]),
        display_errors env 1 (py_sorted lt_SpellingError errors),
        display_packages env items]"

definition msg :: string where
  "msg = join_sep lf
     [''[green]'',
      ''If there are spelling errors related to class or function name, make sure'',
      ''those names are quoted with backticks '' @ [squote, CHR 0x60, squote]
        @ '' - this should exclude it from spellcheck process.'',
      ''If there are spelling errors in the summary above, and the spelling is'',
      ''correct, add the spelling to docs/spelling_wordlist.txt or use the'',
      ''spelling directive.'',
      ''Check https://sphinxcontrib-spelling.readthedocs.io/en/latest/customize.html#private-dictionaries'',
      ''for more details.'',
      [],
      ''If there are no spelling errors in the summary above, there might be an'',
      ''issue unrelated to spelling. Please review the traceback.'',
      ''    '']"

text \<open>The dictionary is the list of its items in insertion order, with distinct keys.\<close>

definition display_spelling_error_summary ::
  "environment \<Rightarrow> (string \<times> SpellingError list) list \<Rightarrow> action" where
  "display_spelling_error_summary env spelling_errors =
     in_order
       [console_print env [],
        console_print env
          [''[red]'' @ replicate 30 (CHR ''#'') @ '' Start spelling errors summary ''
           @ replicate 30 (CHR ''#'') @ ''[/]''],
        console_print env [],
        display_packages env (py_sorted item_lt spelling_errors),
        console_print env [replicate 100 (CHR ''='')],
        console_print env [],
        console_print env [msg],
        console_print env [],
        console_print env
          [''[red]'' @ replicate 30 (CHR ''#'') @ '' End docs build errors summary ''
           @ replicate 30 (CHR ''#'') @ ''[/]'']]"

section \<open>The operator that inserts a document\<close>

text \<open>
  The hook is a collaborator: its class is a parameter, a function from the connection id
  to a hook or an exception, and each method of a hook maps the state of the service to an
  exception or to its answer and the next state. The calls made are recorded in a trace.
\<close>

record ('h, 'd) hook =
  does_database_exist :: "string \<Rightarrow> 'h \<Rightarrow> pyexn + bool \<times> 'h"
  create_database :: "string \<Rightarrow> 'h \<Rightarrow> pyexn + unit \<times> 'h"
  does_collection_exist :: "string \<Rightarrow> string \<Rightarrow> 'h \<Rightarrow> pyexn + bool \<times> 'h"
  create_collection :: "string \<Rightarrow> string \<Rightarrow> 'h \<Rightarrow> pyexn + unit \<times> 'h"
  upsert_document :: "'d \<Rightarrow> string \<Rightarrow> string \<Rightarrow> 'h \<Rightarrow> pyexn + unit \<times> 'h"

datatype 'd hook_call =
    DoesDatabaseExist string
  | CreateDatabase string
  | DoesCollectionExist string string
  | CreateCollection string string
  | UpsertDocument 'd string string

record 'd AzureCosmosInsertDocumentOperator =
  database_name :: string
  collection_name :: string
  document :: 'd
  azure_cosmos_conn_id :: string

type_synonym ('a, 'h, 'd) run = "'h \<times> 'd hook_call list \<Rightarrow> (pyexn + 'a) \<times> 'h \<times> 'd hook_call list"

definition invoke :: "'d hook_call \<Rightarrow> ('h \<Rightarrow> pyexn + 'a \<times> 'h) \<Rightarrow> ('a, 'h, 'd) run" where
  "invoke c f st =
     (case f (fst st) of
        Inl e \<Rightarrow> (Inl e, fst st, snd st @ [c])
      | Inr (a, h') \<Rightarrow> (Inr a, h', snd st @ [c]))"

definition then_run :: "('a, 'h, 'd) run \<Rightarrow> ('a \<Rightarrow> ('b, 'h, 'd) run) \<Rightarrow> ('b, 'h, 'd) run" where
  "then_run f g st = (case f st of (Inl e, st') \<Rightarrow> (Inl e, st') | (Inr a, st') \<Rightarrow> g a st')"

definition execute ::
  "(string \<Rightarrow> pyexn + ('h, 'd) hook) \<Rightarrow> 'd AzureCosmosInsertDocumentOperator
     \<Rightarrow> (unit, 'h, 'd) run" where
  "execute AzureCosmosDBHook self st =
     (case AzureCosmosDBHook (azure_cosmos_conn_id self) of
        Inl e \<Rightarrow> (Inl e, st)
      | Inr hook \<Rightarrow>
          then_run (invoke (DoesDatabaseExist (database_name self))
                  (does_database_exist hook (database_name self)))
            (\<lambda>db_exists.
          then_run (if \<not> db_exists
                then invoke (CreateDatabase (database_name self))
                       (create_database hook (database_name self))
                else (\<lambda>st. (Inr (), st)))
            (\<lambda>_.
          then_run (invoke (DoesCollectionExist (collection_name self) (database_name self))
                  (does_collection_exist hook (collection_name self) (database_name self)))
            (\<lambda>coll_exists.
          then_run (if \<not> coll_exists
                then invoke (CreateCollection (collection_name self) (database_name self))
                       (create_collection hook (collection_name self) (database_name self))
                else (\<lambda>st. (Inr (), st)))
            (\<lambda>_.
          invoke (UpsertDocument (document self) (database_name self) (collection_name self))
            (upsert_document hook (document self) (database_name self)
               (collection_name self)))))) st)"

section \<open>Notions of the specification\<close>

text \<open>A record with full positional detail, and a record with its raw message only.\<close>

definition fully_detailed :: "SpellingError \<Rightarrow> bool" where
  "fully_detailed r =
     (file_path r \<noteq> None \<and> line_no r \<noteq> None \<and> spelling r \<noteq> None
      \<and> suggestion r \<noteq> None \<and> context_line r \<noteq> None)"

definition raw_only :: "SpellingError \<Rightarrow> bool" where
  "raw_only r =
     (file_path r = None \<and> line_no r = None \<and> spelling r = None
      \<and> suggestion r = None \<and> context_line r = None)"

text \<open>The comparison key as the specification words it: path, line number, context, token
  and raw message, where a missing path counts as the root, a missing line number as zero
  and a missing token or context as the empty string.\<close>

definition comparison_key :: "SpellingError \<Rightarrow> Path \<times> int \<times> string \<times> string \<times> string" where
  "comparison_key r =
     ((case file_path r of None \<Rightarrow> Path ''/'' | Some p \<Rightarrow> p),
      (case line_no r of None \<Rightarrow> 0 | Some n \<Rightarrow> n),
      (case context_line r of None \<Rightarrow> [] | Some c \<Rightarrow> c),
      (case spelling r of None \<Rightarrow> [] | Some t \<Rightarrow> t),
      message r)"

text \<open>The example text of the specification: a spelling warning whose suggestion is quoted,
  and a line that is no warning.\<close>

definition example_line :: string where
  "example_line =
     ''docs/foo.rst:10: (SpellingError) '' @ [dquote] @ ''teh'' @ [dquote] @ '' recieve the''"

definition example_text :: string where
  "example_text = example_line @ [lf] @ ''Some bogus line''"

fun is_create :: "'d hook_call \<Rightarrow> bool" where
  "is_create (CreateDatabase _) = True"
| "is_create (CreateCollection _ _) = True"
| "is_create _ = False"

fun is_upsert :: "'d hook_call \<Rightarrow> bool" where
  "is_upsert (UpsertDocument _ _ _) = True"
| "is_upsert _ = False"

section \<open>The parser\<close>

lemma parse_loop_map:
  "parse_loop d ws acc = acc @ map (parse_warning d) (filter (\<lambda>w. w \<noteq> []) ws)"
  by (induction ws arbitrary: acc) simp_all

lemma parse_spelling_warnings_map:
  "parse_spelling_warnings text d =
     map (parse_warning d) (filter (\<lambda>w. w \<noteq> []) (splitlines text))"
  by (simp add: parse_spelling_warnings_def parse_loop_map)

lemma message_build_error: "build_error d parts w = Inr r \<Longrightarrow> message r = w"
  by (auto simp: build_error_def split: sum.splits if_splits)

lemma message_parse_warning: "message (parse_warning d w) = w"
  by (auto simp: parse_warning_def message_only_def message_build_error
           split: option.splits sum.splits)

lemma search_empty: "re_search_groups warning_pattern [] = None"
  by code_simp

text \<open>
  C6. The parser yields one record per non-empty line of the text, in the order of the
  lines: the raw messages of the records are the non-empty lines, and of \<open>N\<close> lines of which
  \<open>K\<close> are empty, \<open>N - K\<close> records are made.
\<close>

theorem one_record_per_nonempty_line:
  "map message (parse_spelling_warnings text d) = filter (\<lambda>w. w \<noteq> []) (splitlines text)
   \<and> length (parse_spelling_warnings text d)
       = length (splitlines text) - length (filter (\<lambda>w. w = []) (splitlines text))"
proof -
  have "length (filter (\<lambda>w. w \<noteq> []) ws) = length ws - length (filter (\<lambda>w. w = []) ws)"
    for ws :: "string list"
    by (induction ws) (auto simp: Suc_diff_le)
  then show ?thesis
    by (simp add: parse_spelling_warnings_map message_parse_warning comp_def)
qed

theorem one_record_per_nonempty_line_witness:
  "splitlines (''a:1: (b) c d'' @ [lf, lf] @ ''x'' @ [cr, lf, lf]) = [''a:1: (b) c d'', [], ''x'', []]
   \<and> map message (parse_spelling_warnings (''a:1: (b) c d'' @ [lf, lf] @ ''x'' @ [cr, lf, lf])
                    (Path ''docs'')) = [''a:1: (b) c d'', ''x'']
   \<and> length (parse_spelling_warnings (''a:1: (b) c d'' @ [lf, lf] @ ''x'' @ [cr, lf, lf])
                (Path ''docs'')) = 4 - 2"
proof -
  have sl: "splitlines (''a:1: (b) c d'' @ [lf, lf] @ ''x'' @ [cr, lf, lf])
              = [''a:1: (b) c d'', [], ''x'', []]"
    by code_simp
  show ?thesis
    using one_record_per_nonempty_line
            [of "''a:1: (b) c d'' @ [lf, lf] @ ''x'' @ [cr, lf, lf]" "Path ''docs''"] sl
    by simp
qed

text \<open>
  C3. The parser does not fail. A non-empty line that the pattern does not match, or that
  it matches without giving five groups, or for which building the record raises an error,
  gives the record that holds the line as its raw message and nothing else; the lines
  before it and the lines after it are parsed as usual.
\<close>

theorem parser_degrades_to_message_only:
  assumes "splitlines text = before @ w # after" and "w \<noteq> []"
    and "re_search_groups warning_pattern w = None
       \<or> (\<exists>parts. re_search_groups warning_pattern w = Some parts \<and> length parts \<noteq> 5)
       \<or> (\<exists>parts e. re_search_groups warning_pattern w = Some parts
             \<and> build_error d parts w = Inl e)"
  shows "parse_warning d w = message_only w
       \<and> parse_spelling_warnings text d
           = parse_loop d before [] @ message_only w # parse_loop d after []"
proof -
  from assms(3) have "parse_warning d w = message_only w"
    by (auto simp: parse_warning_def)
  with assms(1,2) show ?thesis
    by (simp add: parse_spelling_warnings_def parse_loop_map)
qed

theorem parser_degrades_to_message_only_witness:
  "splitlines (''a:x1: (b) c d'' @ [lf] @ ''k:2: (w) s t'')
     = [] @ ''a:x1: (b) c d'' # [''k:2: (w) s t'']
   \<and> re_search_groups warning_pattern ''a:x1: (b) c d'' = Some [''a'', ''x1'', ''b'', ''c'', ''d'']
   \<and> build_error (Path ''docs'') [''a'', ''x1'', ''b'', ''c'', ''d''] ''a:x1: (b) c d''
       = Inl ValueError
   \<and> parse_spelling_warnings (''a:x1: (b) c d'' @ [lf] @ ''k:2: (w) s t'') (Path ''docs'')
       = [message_only ''a:x1: (b) c d'',
          \<lparr>file_path = Some (Path ''docs/k''), line_no = Some 2, spelling = Some ''w'',
           suggestion = Some ''s'', context_line = Some ''t'', message = ''k:2: (w) s t''\<rparr>]"
proof -
  have sl: "splitlines (''a:x1: (b) c d'' @ [lf] @ ''k:2: (w) s t'')
              = [] @ ''a:x1: (b) c d'' # [''k:2: (w) s t'']"
    by code_simp
  have m: "re_search_groups warning_pattern ''a:x1: (b) c d''
             = Some [''a'', ''x1'', ''b'', ''c'', ''d'']"
    by code_simp
  have b: "build_error (Path ''docs'') [''a'', ''x1'', ''b'', ''c'', ''d''] ''a:x1: (b) c d''
             = Inl ValueError"
    by code_simp
  have rest: "parse_loop (Path ''docs'') [''k:2: (w) s t''] []
                = [\<lparr>file_path = Some (Path ''docs/k''), line_no = Some 2, spelling = Some ''w'',
                    suggestion = Some ''s'', context_line = Some ''t'',
                    message = ''k:2: (w) s t''\<rparr>]"
    by code_simp
  have "parse_spelling_warnings (''a:x1: (b) c d'' @ [lf] @ ''k:2: (w) s t'') (Path ''docs'')
          = parse_loop (Path ''docs'') [] [] @ message_only ''a:x1: (b) c d''
              # parse_loop (Path ''docs'') [''k:2: (w) s t''] []"
    using parser_degrades_to_message_only [OF sl, of "Path ''docs''"] m b by simp
  with sl m b rest show ?thesis by simp
qed

text \<open>
  C2. When the pattern matches a line with five groups and the second group, the line
  number, is the string \<open>None\<close> or is empty, the record of the line has no line number
  (neither a string nor zero: the field is absent), and its other fields are filled from the
  groups as for any matched line: the path is the base directory joined with the first
  group, the token is the third group, the suggestion is the fourth group unless that is
  empty, the context is the fifth group and the raw message is the line. This record is
  among the parser's records for every text that has the line.
\<close>

theorem none_line_number_is_absent:
  assumes "re_search_groups warning_pattern w = Some [g1, g2, g3, g4, g5]"
    and "g2 = ''None'' \<or> g2 = []"
  shows "parse_warning d w =
           \<lparr>file_path = Some (truediv d g1), line_no = None, spelling = Some g3,
            suggestion = (if g4 \<noteq> [] then Some g4 else None), context_line = Some g5,
            message = w\<rparr>
       \<and> (w \<in> set (splitlines text) \<longrightarrow>
            \<lparr>file_path = Some (truediv d g1), line_no = None, spelling = Some g3,
             suggestion = (if g4 \<noteq> [] then Some g4 else None), context_line = Some g5,
             message = w\<rparr> \<in> set (parse_spelling_warnings text d))"
proof -
  from assms have pw: "parse_warning d w =
           \<lparr>file_path = Some (truediv d g1), line_no = None, spelling = Some g3,
            suggestion = (if g4 \<noteq> [] then Some g4 else None), context_line = Some g5,
            message = w\<rparr>"
    by (auto simp: parse_warning_def build_error_def)
  from assms(1) have "w \<noteq> []"
    using search_empty by auto
  with pw show ?thesis
    by (auto simp: parse_spelling_warnings_map image_iff intro!: bexI [of _ w])
qed

theorem none_line_number_is_absent_witness:
  "re_search_groups warning_pattern ''docs/a.rst:None: (teh) the rest''
     = Some [''docs/a.rst'', ''None'', ''teh'', ''the'', ''rest'']
   \<and> ''docs/a.rst:None: (teh) the rest'' \<in> set (splitlines ''docs/a.rst:None: (teh) the rest'')
   \<and> parse_spelling_warnings ''docs/a.rst:None: (teh) the rest'' (Path ''/src'') =
       [\<lparr>file_path = Some (Path ''/src/docs/a.rst''), line_no = None, spelling = Some ''teh'',
         suggestion = Some ''the'', context_line = Some ''rest'',
         message = ''docs/a.rst:None: (teh) the rest''\<rparr>]"
proof -
  have m: "re_search_groups warning_pattern ''docs/a.rst:None: (teh) the rest''
             = Some [''docs/a.rst'', ''None'', ''teh'', ''the'', ''rest'']"
    by code_simp
  have sl: "splitlines ''docs/a.rst:None: (teh) the rest'' = [''docs/a.rst:None: (teh) the rest'']"
    by code_simp
  have td: "truediv (Path ''/src'') ''docs/a.rst'' = Path ''/src/docs/a.rst''"
    by code_simp
  have "parse_warning (Path ''/src'') ''docs/a.rst:None: (teh) the rest'' =
          \<lparr>file_path = Some (truediv (Path ''/src'') ''docs/a.rst''), line_no = None,
           spelling = Some ''teh'', suggestion = (if ''the'' \<noteq> [] then Some ''the'' else None),
           context_line = Some ''rest'', message = ''docs/a.rst:None: (teh) the rest''\<rparr>"
    using none_line_number_is_absent [OF m, of "Path ''/src''"] by blast
  with m sl td show ?thesis
    by (simp add: parse_spelling_warnings_map)
qed

text \<open>
  C1 as stated fails: a matched line whose line number is \<open>None\<close> gives a record that has a
  path, a token, a suggestion and a context, and no line number.
\<close>

theorem positional_fields_not_joint_counterexample:
  "parse_spelling_warnings ''docs/a.rst:None: (teh) the rest'' (Path ''/src'') =
     [\<lparr>file_path = Some (Path ''/src/docs/a.rst''), line_no = None, spelling = Some ''teh'',
       suggestion = Some ''the'', context_line = Some ''rest'',
       message = ''docs/a.rst:None: (teh) the rest''\<rparr>]
   \<and> \<not> (fully_detailed
            \<lparr>file_path = Some (Path ''/src/docs/a.rst''), line_no = None,
             spelling = Some ''teh'', suggestion = Some ''the'', context_line = Some ''rest'',
             message = ''docs/a.rst:None: (teh) the rest''\<rparr>
          \<or> raw_only
            \<lparr>file_path = Some (Path ''/src/docs/a.rst''), line_no = None,
             spelling = Some ''teh'', suggestion = Some ''the'', context_line = Some ''rest'',
             message = ''docs/a.rst:None: (teh) the rest''\<rparr>)"
proof -
  have "parse_spelling_warnings ''docs/a.rst:None: (teh) the rest'' (Path ''/src'') =
          [\<lparr>file_path = Some (Path ''/src/docs/a.rst''), line_no = None, spelling = Some ''teh'',
            suggestion = Some ''the'', context_line = Some ''rest'',
            message = ''docs/a.rst:None: (teh) the rest''\<rparr>]"
    by code_simp
  then show ?thesis
    by (simp add: fully_detailed_def raw_only_def)
qed

lemma build_error_fields:
  "build_error d parts w = Inr r \<Longrightarrow>
     file_path r \<noteq> None \<and> spelling r \<noteq> None \<and> context_line r \<noteq> None"
  by (auto simp: build_error_def split: sum.splits if_splits)

lemma raw_only_message_only: "raw_only (message_only w)"
  by (simp add: raw_only_def message_only_def)

text \<open>
  C1, amended. In every record that the parser makes, the path, the token and the context
  are present together or absent together. A record without them has no line number and no
  suggestion either: it holds its raw message only. A record with them may lack the line
  number or the suggestion.
\<close>

theorem path_token_context_joint:
  "\<forall>r \<in> set (parse_spelling_warnings text d).
     (file_path r \<noteq> None \<and> spelling r \<noteq> None \<and> context_line r \<noteq> None) \<or> raw_only r"
proof
  fix r
  assume "r \<in> set (parse_spelling_warnings text d)"
  then obtain w where r: "r = parse_warning d w"
    by (auto simp: parse_spelling_warnings_map)
  show "(file_path r \<noteq> None \<and> spelling r \<noteq> None \<and> context_line r \<noteq> None) \<or> raw_only r"
    unfolding r parse_warning_def
    by (auto simp: raw_only_message_only dest: build_error_fields
             split: option.splits sum.splits)
qed

theorem path_token_context_joint_witness:
  "parse_spelling_warnings (''docs/a.rst:: (teh)  rest'' @ [lf] @ ''no warning'') (Path ''/src'')
     = [\<lparr>file_path = Some (Path ''/src/docs/a.rst''), line_no = None, spelling = Some ''teh'',
         suggestion = None, context_line = Some ''rest'',
         message = ''docs/a.rst:: (teh)  rest''\<rparr>,
        message_only ''no warning'']
   \<and> ((file_path \<lparr>file_path = Some (Path ''/src/docs/a.rst''), line_no = None,
                    spelling = Some ''teh'', suggestion = None, context_line = Some ''rest'',
                    message = ''docs/a.rst:: (teh)  rest''\<rparr> \<noteq> None
         \<and> spelling \<lparr>file_path = Some (Path ''/src/docs/a.rst''), line_no = None,
                    spelling = Some ''teh'', suggestion = None, context_line = Some ''rest'',
                    message = ''docs/a.rst:: (teh)  rest''\<rparr> \<noteq> None
         \<and> context_line \<lparr>file_path = Some (Path ''/src/docs/a.rst''), line_no = None,
                    spelling = Some ''teh'', suggestion = None, context_line = Some ''rest'',
                    message = ''docs/a.rst:: (teh)  rest''\<rparr> \<noteq> None)
        \<or> raw_only \<lparr>file_path = Some (Path ''/src/docs/a.rst''), line_no = None,
                    spelling = Some ''teh'', suggestion = None, context_line = Some ''rest'',
                    message = ''docs/a.rst:: (teh)  rest''\<rparr>)
   \<and> ((file_path (message_only ''no warning'') \<noteq> None
         \<and> spelling (message_only ''no warning'') \<noteq> None
         \<and> context_line (message_only ''no warning'') \<noteq> None)
        \<or> raw_only (message_only ''no warning''))"
proof -
  have p: "parse_spelling_warnings (''docs/a.rst:: (teh)  rest'' @ [lf] @ ''no warning'')
          (Path ''/src'')
        = [\<lparr>file_path = Some (Path ''/src/docs/a.rst''), line_no = None,
            spelling = Some ''teh'', suggestion = None, context_line = Some ''rest'',
            message = ''docs/a.rst:: (teh)  rest''\<rparr>,
           message_only ''no warning'']"
    by code_simp
  have "\<forall>r \<in> set [\<lparr>file_path = Some (Path ''/src/docs/a.rst''), line_no = None,
                     spelling = Some ''teh'', suggestion = None, context_line = Some ''rest'',
                     message = ''docs/a.rst:: (teh)  rest''\<rparr>,
                    message_only ''no warning''].
          (file_path r \<noteq> None \<and> spelling r \<noteq> None \<and> context_line r \<noteq> None) \<or> raw_only r"
    using path_token_context_joint
            [of "''docs/a.rst:: (teh)  rest'' @ [lf] @ ''no warning''" "Path ''/src''"]
    unfolding p .
  with p show ?thesis
    by (simp only: list.set ball_simps bex_simps simp_thms)
qed

text \<open>
  C7 as stated fails: in the example the suggestion group stops at the quotation mark, so
  the context of the first record is the whole rest of the line, quoted word included, and
  not \<open>recieve the\<close>.
\<close>

theorem example_context_counterexample:
  "context_line (parse_spelling_warnings example_text (Path ''/base'') ! 0)
     \<noteq> Some ''recieve the''"
  by code_simp

text \<open>
  C7, amended. Parsing the example text with a base directory gives two records. The first
  has the path of the base directory joined with \<open>docs/foo.rst\<close>, the line number 10, the
  token \<open>SpellingError\<close>, no suggestion, the context \<open>"teh" recieve the\<close> and the first line
  as its raw message. The second has the raw message \<open>Some bogus line\<close> and nothing else.
\<close>

theorem example_text_records:
  "parse_spelling_warnings example_text base
   = [\<lparr>file_path = Some (truediv base ''docs/foo.rst''), line_no = Some 10,
       spelling = Some ''SpellingError'', suggestion = None,
       context_line = Some ([dquote] @ ''teh'' @ [dquote] @ '' recieve the''),
       message = example_line\<rparr>,
      \<lparr>file_path = None, line_no = None, spelling = None, suggestion = None,
       context_line = None, message = ''Some bogus line''\<rparr>]"
proof -
  have sl: "splitlines example_text = [example_line, ''Some bogus line'']"
    by code_simp
  have m1: "re_search_groups warning_pattern example_line
              = Some [''docs/foo.rst'', ''10'', ''SpellingError'', [],
                      [dquote] @ ''teh'' @ [dquote] @ '' recieve the'']"
    by code_simp
  have m2: "re_search_groups warning_pattern ''Some bogus line'' = None"
    by code_simp
  have i: "py_int ''10'' = Inr 10"
    by code_simp
  have pw1: "parse_warning base example_line =
      \<lparr>file_path = Some (truediv base ''docs/foo.rst''), line_no = Some 10,
       spelling = Some ''SpellingError'', suggestion = None,
       context_line = Some ([dquote] @ ''teh'' @ [dquote] @ '' recieve the''),
       message = example_line\<rparr>"
    by (simp add: parse_warning_def m1 build_error_def i)
  have pw2: "parse_warning base ''Some bogus line'' = message_only ''Some bogus line''"
    by (simp add: parse_warning_def m2)
  have ne: "example_line \<noteq> []"
    by (simp add: example_line_def)
  show ?thesis
    unfolding parse_spelling_warnings_map sl using ne
    by (simp add: pw1 pw2 message_only_def)
qed

theorem example_text_records_witness:
  "parse_spelling_warnings example_text (Path ''/opt/airflow'')
   = [\<lparr>file_path = Some (Path ''/opt/airflow/docs/foo.rst''), line_no = Some 10,
       spelling = Some ''SpellingError'', suggestion = None,
       context_line = Some ([dquote] @ ''teh'' @ [dquote] @ '' recieve the''),
       message = example_line\<rparr>,
      \<lparr>file_path = None, line_no = None, spelling = None, suggestion = None,
       context_line = None, message = ''Some bogus line''\<rparr>]"
proof -
  have "truediv (Path ''/opt/airflow'') ''docs/foo.rst'' = Path ''/opt/airflow/docs/foo.rst''"
    by code_simp
  then show ?thesis
    using example_text_records [of "Path ''/opt/airflow''"] by simp
qed

section \<open>Equality and order of records\<close>

text \<open>
  C5. Two records are equal exactly when they agree on path, line number, token, context
  and raw message: the suggestion takes no part, so records that differ in nothing but the
  suggestion are equal, and records that differ in one of the five fields are not.
\<close>

theorem equality_ignores_suggestion:
  "(eq_SpellingError a b \<longleftrightarrow>
      file_path a = file_path b \<and> line_no a = line_no b \<and> spelling a = spelling b
      \<and> context_line a = context_line b \<and> message a = message b)
   \<and> eq_SpellingError (a\<lparr>suggestion := s\<rparr>) (a\<lparr>suggestion := t\<rparr>)
   \<and> (ne_SpellingError a b \<longleftrightarrow> \<not> eq_SpellingError a b)"
  by (simp add: eq_SpellingError_def ne_SpellingError_def)

theorem equality_ignores_suggestion_witness:
  "eq_SpellingError
     \<lparr>file_path = Some (Path ''docs/a.rst''), line_no = Some 3, spelling = Some ''teh'',
      suggestion = Some ''the'', context_line = Some ''teh cat'', message = ''m''\<rparr>
     \<lparr>file_path = Some (Path ''docs/a.rst''), line_no = Some 3, spelling = Some ''teh'',
      suggestion = None, context_line = Some ''teh cat'', message = ''m''\<rparr>
   \<and> \<not> eq_SpellingError
     \<lparr>file_path = Some (Path ''docs/a.rst''), line_no = Some 3, spelling = Some ''teh'',
      suggestion = Some ''the'', context_line = Some ''teh cat'', message = ''m''\<rparr>
     \<lparr>file_path = Some (Path ''docs/a.rst''), line_no = Some 4, spelling = Some ''teh'',
      suggestion = Some ''the'', context_line = Some ''teh cat'', message = ''m''\<rparr>"
  using equality_ignores_suggestion
          [of "\<lparr>file_path = Some (Path ''docs/a.rst''), line_no = Some 3,
               spelling = Some ''teh'', suggestion = Some ''the'',
               context_line = Some ''teh cat'', message = ''m''\<rparr>"
              "\<lparr>file_path = Some (Path ''docs/a.rst''), line_no = Some 3,
               spelling = Some ''teh'', suggestion = None,
               context_line = Some ''teh cat'', message = ''m''\<rparr>"]
        equality_ignores_suggestion
          [of "\<lparr>file_path = Some (Path ''docs/a.rst''), line_no = Some 3,
               spelling = Some ''teh'', suggestion = Some ''the'',
               context_line = Some ''teh cat'', message = ''m''\<rparr>"
              "\<lparr>file_path = Some (Path ''docs/a.rst''), line_no = Some 4,
               spelling = Some ''teh'', suggestion = Some ''the'',
               context_line = Some ''teh cat'', message = ''m''\<rparr>"]
  by simp

lemma lt_by_comparison_key:
  "lt_SpellingError a b \<longleftrightarrow> comparison_key a < comparison_key b"
proof -
  have p: "or_path x (mkPath ''/'') = (case x of None \<Rightarrow> Path ''/'' | Some p \<Rightarrow> p)" for x
  proof -
    have "mkPath ''/'' = Path ''/''" by code_simp
    then show ?thesis by (simp add: or_path_def)
  qed
  have i: "or_int x 0 = (case x of None \<Rightarrow> 0 | Some n \<Rightarrow> n)" for x
    by (simp add: or_int_def split: option.splits)
  have s: "or_str x [] = (case x of None \<Rightarrow> [] | Some n \<Rightarrow> n)" for x
    by (simp add: or_str_def or_text_def split: option.splits)
  have t: "or_text x [] = x" for x
    by (simp add: or_text_def)
  show ?thesis
    by (simp add: lt_SpellingError_def comparison_key_def p i s t Let_def)
qed

lemma insort_lt_key:
  "\<forall>y \<in> set ys. lt y x = (f y < f x) \<Longrightarrow> insort_lt lt x ys = insort_key f x ys"
  by (induction ys) (auto simp: not_le)

lemma py_sorted_sort_key:
  "\<forall>x \<in> set xs. \<forall>y \<in> set xs. lt x y = (f x < f y) \<Longrightarrow> py_sorted lt xs = sort_key f xs"
proof (induction xs)
  case Nil
  show ?case by (simp add: py_sorted_def)
next
  case (Cons x xs)
  then have "py_sorted lt xs = sort_key f xs" by simp
  moreover have "insort_lt lt x (sort_key f xs) = insort_key f x (sort_key f xs)"
    using Cons.prems by (intro insort_lt_key) simp
  ultimately show ?case
    by (simp add: py_sorted_def)
qed

text \<open>Records with the same key are tied in the order; they need not be equal, since
  equality tells an absent line number from zero.\<close>

lemma tied_records_may_differ:
  "comparison_key (r\<lparr>line_no := None\<rparr>) = comparison_key (r\<lparr>line_no := Some 0\<rparr>)
   \<and> \<not> eq_SpellingError (r\<lparr>line_no := None\<rparr>) (r\<lparr>line_no := Some 0\<rparr>)"
  by (simp add: comparison_key_def eq_SpellingError_def)

text \<open>
  C4. Records are ordered by their comparison keys, the tuples of path, line number,
  context, token and raw message in which a missing path counts as the root, a missing line
  number as zero and a missing string as empty, compared lexicographically. The keys are
  totally ordered, so the order of records is irreflexive and transitive, any two records
  are ordered one way or the other unless their keys are equal, and sorting puts the
  records in ascending order of their keys. Hence a record whose path is smaller than the
  path of another comes before it, whatever the other fields are.
\<close>

theorem order_by_comparison_key:
  "(lt_SpellingError a b \<longleftrightarrow> comparison_key a < comparison_key b)
   \<and> \<not> lt_SpellingError a a
   \<and> (lt_SpellingError a b \<and> lt_SpellingError b c \<longrightarrow> lt_SpellingError a c)
   \<and> (lt_SpellingError a b \<or> lt_SpellingError b a \<or> comparison_key a = comparison_key b)
   \<and> py_sorted lt_SpellingError xs = sort_key comparison_key xs
   \<and> (fst (comparison_key a) < fst (comparison_key b) \<longrightarrow> lt_SpellingError a b)
   \<and> (file_path a = Some p \<and> file_path b = Some q \<and> p < q \<longrightarrow> lt_SpellingError a b)"
proof -
  have "fst (comparison_key a) < fst (comparison_key b)
          \<Longrightarrow> comparison_key a < comparison_key b"
    by (simp add: less_prod_def)
  moreover have "file_path a = Some p \<Longrightarrow> file_path b = Some q \<Longrightarrow> p < q
          \<Longrightarrow> fst (comparison_key a) < fst (comparison_key b)"
    by (simp add: comparison_key_def)
  moreover have "py_sorted lt_SpellingError xs = sort_key comparison_key xs"
    by (rule py_sorted_sort_key) (simp add: lt_by_comparison_key)
  ultimately show ?thesis
    unfolding lt_by_comparison_key by auto
qed

theorem order_by_comparison_key_witness:
  "Path ''docs/a.rst'' < Path ''docs/b.rst''
   \<and> lt_SpellingError
       \<lparr>file_path = Some (Path ''docs/a.rst''), line_no = Some 99, spelling = Some ''zz'',
        suggestion = None, context_line = Some ''zz'', message = ''zz''\<rparr>
       \<lparr>file_path = Some (Path ''docs/b.rst''), line_no = None, spelling = Some ''aa'',
        suggestion = None, context_line = Some ''aa'', message = ''aa''\<rparr>"
proof -
  have less: "Path ''docs/a.rst'' < Path ''docs/b.rst''"
    by code_simp
  have "file_path \<lparr>file_path = Some (Path ''docs/a.rst''), line_no = Some 99,
                   spelling = Some ''zz'', suggestion = None, context_line = Some ''zz'',
                   message = ''zz''\<rparr> = Some (Path ''docs/a.rst'')
        \<and> file_path \<lparr>file_path = Some (Path ''docs/b.rst''), line_no = None,
                   spelling = Some ''aa'', suggestion = None, context_line = Some ''aa'',
                   message = ''aa''\<rparr> = Some (Path ''docs/b.rst'')
        \<and> Path ''docs/a.rst'' < Path ''docs/b.rst''"
    using less by simp
  then have "lt_SpellingError
       \<lparr>file_path = Some (Path ''docs/a.rst''), line_no = Some 99, spelling = Some ''zz'',
        suggestion = None, context_line = Some ''zz'', message = ''zz''\<rparr>
       \<lparr>file_path = Some (Path ''docs/b.rst''), line_no = None, spelling = Some ''aa'',
        suggestion = None, context_line = Some ''aa'', message = ''aa''\<rparr>"
    using order_by_comparison_key
            [of "\<lparr>file_path = Some (Path ''docs/a.rst''), line_no = Some 99,
                  spelling = Some ''zz'', suggestion = None, context_line = Some ''zz'',
                  message = ''zz''\<rparr>"
                "\<lparr>file_path = Some (Path ''docs/b.rst''), line_no = None,
                  spelling = Some ''aa'', suggestion = None, context_line = Some ''aa'',
                  message = ''aa''\<rparr>"
                "message_only ''zz''" "[]" "Path ''docs/a.rst''" "Path ''docs/b.rst''"]
    by blast
  with less show ?thesis by blast
qed

section \<open>The reporter\<close>

lemma list_lt_irrefl: "\<not> list_lt xs xs"
  by (induction xs) (simp_all add: eq_SpellingError_def)

lemma item_lt_key:
  assumes "distinct (map fst d)" and "x \<in> set d" and "y \<in> set d"
  shows "item_lt x y = (fst x < fst y)"
proof (cases "fst x = fst y")
  case True
  with assms have "x = y"
    by (meson distinct_map inj_onD)
  then show ?thesis
    by (simp add: item_lt_def list_lt_irrefl)
next
  case False
  then show ?thesis by (simp add: item_lt_def)
qed

lemma sorted_items_by_key:
  assumes "distinct (map fst d)"
  shows "py_sorted item_lt d = sort_key fst d"
proof (rule py_sorted_sort_key, intro ballI)
  fix x y
  assume "x \<in> set d" "y \<in> set d"
  with assms show "item_lt x y = (fst x < fst y)"
    by (rule item_lt_key)
qed

lemma sort_key_items_unique:
  assumes "distinct (map fst d1)" and "distinct (map fst d2)" and "map_of d1 = map_of d2"
  shows "sort_key fst d1 = sort_key fst d2"
proof -
  from assms have s: "set d1 = set d2"
    by (simp add: map_of_inject_set)
  have inj: "inj_on fst (set d1)" and d1: "distinct d1" and d2: "distinct d2"
    using assms(1,2) by (simp_all add: distinct_map)
  have "distinct (map fst (sort_key fst d1))" "distinct (map fst (sort_key fst d2))"
    using inj d1 d2 s by (simp_all add: distinct_map)
  moreover have "sorted (map fst (sort_key fst d1))" "sorted (map fst (sort_key fst d2))"
    by simp_all
  moreover have "set (map fst (sort_key fst d1)) = set (map fst (sort_key fst d2))"
    using s by simp
  ultimately have "map fst (sort_key fst d1) = map fst (sort_key fst d2)"
    by (metis sorted_distinct_set_unique)
  moreover have "inj_on fst (set (sort_key fst d1) \<union> set (sort_key fst d2))"
    using inj s by simp
  ultimately show ?thesis
    by (simp add: inj_on_map_eq_map)
qed

text \<open>
  C9. The report is determined by the mapping from categories to lists of records and by
  the environment (the file system, the excerpt collaborator and the console): the reporter
  reads nothing else (no clock, no random source), and the order in which the dictionary holds its
  categories does not show, since they are sorted. Two dictionaries that are the same
  mapping give, in the same environment and on the same console, the same printed output
  and the same outcome.
\<close>

theorem report_is_deterministic:
  assumes "distinct (map fst d1)" and "distinct (map fst d2)" and "map_of d1 = map_of d2"
  shows "display_spelling_error_summary env d1 out = display_spelling_error_summary env d2 out"
proof -
  have "py_sorted item_lt d1 = py_sorted item_lt d2"
    using sort_key_items_unique [OF assms] assms(1,2) by (simp add: sorted_items_by_key)
  then show ?thesis
    by (simp add: display_spelling_error_summary_def)
qed

theorem report_is_deterministic_witness:
  "distinct (map fst [(''pkg'', [message_only ''b'', message_only ''a'']), ([], [message_only ''c''])])
   \<and> distinct (map fst [([], [message_only ''c'']), (''pkg'', [message_only ''b'', message_only ''a''])])
   \<and> map_of [(''pkg'', [message_only ''b'', message_only ''a'']), ([], [message_only ''c''])]
       = map_of [([], [message_only ''c'']), (''pkg'', [message_only ''b'', message_only ''a''])]
   \<and> display_spelling_error_summary
        \<lparr>resolve = Inr, isfile = (\<lambda>p. False), prepare_code_snippet = (\<lambda>p n. Inr []),
         print_raises = (\<lambda>objects. None)\<rparr>
        [(''pkg'', [message_only ''b'', message_only ''a'']), ([], [message_only ''c''])] []
     = display_spelling_error_summary
        \<lparr>resolve = Inr, isfile = (\<lambda>p. False), prepare_code_snippet = (\<lambda>p n. Inr []),
         print_raises = (\<lambda>objects. None)\<rparr>
        [([], [message_only ''c'']), (''pkg'', [message_only ''b'', message_only ''a''])] []"
proof -
  have d1: "distinct (map fst [(''pkg'', [message_only ''b'', message_only ''a'']),
                               ([], [message_only ''c''])])"
    by simp
  have d2: "distinct (map fst [([], [message_only ''c'']),
                               (''pkg'', [message_only ''b'', message_only ''a''])])"
    by simp
  have m: "map_of [(''pkg'', [message_only ''b'', message_only ''a'']), ([], [message_only ''c''])]
             = map_of [([], [message_only ''c'']),
                       (''pkg'', [message_only ''b'', message_only ''a''])]"
    by (simp add: fun_eq_iff)
  show ?thesis
    using report_is_deterministic [OF d1 d2 m] d1 d2 m by blast
qed

lemma and_then_skip [simp]: "and_then f skip = f" "and_then skip f = f"
  by (auto simp: and_then_def skip_def fun_eq_iff split: prod.splits option.splits)

text \<open>A line number other than zero is shown, with the excerpt, when the file exists.\<close>

lemma nonzero_line_number_is_shown:
  assumes "file_path error = Some p" and "line_no error = Some n" and "n \<noteq> 0"
    and "\<not> endswith (as_posix p) ''<unknown>''" and "isfile env p"
    and "print_raises env = (\<lambda>objects. None)" and "resolve env p = Inr q"
    and "prepare_code_snippet env p n = Inr snippet"
    and "spelling error = None" and "suggestion error = None" and "context_line error = None"
  shows "display_error env error out =
           (None, out @ [[message error], [], [''File path: '' @ as_posix q],
                         [''Line Number: '' @ str_int n], [snippet]])"
  using assms
  by (simp add: display_error_def truthy_int_def truthy_str_def console_print_def
                and_then_def skip_def)

text \<open>
  C10. A record that has a path and the line number zero gets no line number and no excerpt
  in the report, although its path does not end with the marker of an unknown location and
  is an existing file: the reporter asks whether the line number is truthy, not whether it
  is present. What is printed is what is printed for the same record without a line number,
  whatever the excerpt collaborator would return; when the console accepts every call and
  the path resolves, that is the raw message, an empty line, the resolved path, and the
  token, the suggestion and the context where these are non-empty.
\<close>

theorem zero_line_number_is_not_shown:
  assumes "file_path error = Some p" and "line_no error = Some 0"
    and "\<not> endswith (as_posix p) ''<unknown>''" and "isfile env p"
  shows "display_error env error out
           = display_error (env\<lparr>prepare_code_snippet := f\<rparr>) (error\<lparr>line_no := None\<rparr>) out
       \<and> (print_raises env = (\<lambda>objects. None) \<and> resolve env p = Inr q \<longrightarrow>
            display_error env error out =
              (None, out @ [[message error], [], [''File path: '' @ as_posix q]]
                 @ (if truthy_str (spelling error)
                    then [[''[red]Incorrect Spelling: '' @ [squote] @ the (spelling error)
                           @ [squote]]]
                    else [])
                 @ (if truthy_str (suggestion error)
                    then [[''Suggested Spelling: '' @ [squote] @ the (suggestion error)
                           @ [squote]]]
                    else [])
                 @ (if truthy_str (context_line error)
                    then [[''Line with Error: '' @ [squote] @ the (context_line error)
                           @ [squote]]]
                    else [])))"
proof -
  have cp: "console_print (env\<lparr>prepare_code_snippet := f\<rparr>) = console_print env"
    by (simp add: console_print_def fun_eq_iff)
  have a: "display_error env error out
           = display_error (env\<lparr>prepare_code_snippet := f\<rparr>) (error\<lparr>line_no := None\<rparr>) out"
    using assms(1,2) by (simp add: display_error_def truthy_int_def cp split: sum.splits)
  have b: "display_error env error out =
              (None, out @ [[message error], [], [''File path: '' @ as_posix q]]
                 @ (if truthy_str (spelling error)
                    then [[''[red]Incorrect Spelling: '' @ [squote] @ the (spelling error)
                           @ [squote]]]
                    else [])
                 @ (if truthy_str (suggestion error)
                    then [[''Suggested Spelling: '' @ [squote] @ the (suggestion error)
                           @ [squote]]]
                    else [])
                 @ (if truthy_str (context_line error)
                    then [[''Line with Error: '' @ [squote] @ the (context_line error)
                           @ [squote]]]
                    else []))"
    if "print_raises env = (\<lambda>objects. None)" "resolve env p = Inr q"
    using assms(1,2) that
    by (simp add: display_error_def truthy_int_def console_print_def and_then_def skip_def)
  from a b show ?thesis by blast
qed

theorem zero_line_number_is_not_shown_witness:
  "\<not> endswith (as_posix (Path ''/src/docs/a.rst'')) ''<unknown>''
   \<and> display_error
        \<lparr>resolve = Inr, isfile = (\<lambda>p. True),
         prepare_code_snippet = (\<lambda>p n. Inr ''excerpt''), print_raises = (\<lambda>objects. None)\<rparr>
        \<lparr>file_path = Some (Path ''/src/docs/a.rst''), line_no = Some 0, spelling = Some ''teh'',
         suggestion = None, context_line = Some ''teh cat'', message = ''m''\<rparr> []
     = (None, [[''m''], [], [''File path: /src/docs/a.rst''],
               [''[red]Incorrect Spelling: '' @ [squote] @ ''teh'' @ [squote]],
               [''Line with Error: '' @ [squote] @ ''teh cat'' @ [squote]]])"
proof -
  define env where "env = \<lparr>resolve = Inr, isfile = (\<lambda>p. True),
      prepare_code_snippet = (\<lambda>p n. Inr ''excerpt''), print_raises = (\<lambda>objects. None)\<rparr>"
  define error where "error = \<lparr>file_path = Some (Path ''/src/docs/a.rst''),
      line_no = Some 0, spelling = Some ''teh'', suggestion = None,
      context_line = Some ''teh cat'', message = ''m''\<rparr>"
  have e: "\<not> endswith (as_posix (Path ''/src/docs/a.rst'')) ''<unknown>''"
    by code_simp
  have fp: "file_path error = Some (Path ''/src/docs/a.rst'')" and ln: "line_no error = Some 0"
    by (simp_all add: error_def)
  have isf: "isfile env (Path ''/src/docs/a.rst'')"
    by (simp add: env_def)
  have ok: "print_raises env = (\<lambda>objects. None)
            \<and> resolve env (Path ''/src/docs/a.rst'') = Inr (Path ''/src/docs/a.rst'')"
    by (simp add: env_def)
  note shown = zero_line_number_is_not_shown
                 [OF fp ln e isf, of "[]" "prepare_code_snippet env" "Path ''/src/docs/a.rst''"]
  from shown ok have "display_error env error [] =
     (None, [] @ [[message error], [], [''File path: '' @ as_posix (Path ''/src/docs/a.rst'')]]
        @ (if truthy_str (spelling error)
           then [[''[red]Incorrect Spelling: '' @ [squote] @ the (spelling error) @ [squote]]]
           else [])
        @ (if truthy_str (suggestion error)
           then [[''Suggested Spelling: '' @ [squote] @ the (suggestion error) @ [squote]]]
           else [])
        @ (if truthy_str (context_line error)
           then [[''Line with Error: '' @ [squote] @ the (context_line error) @ [squote]]]
           else []))"
    by blast
  then have "display_error env error [] =
     (None, [[''m''], [], [''File path: /src/docs/a.rst''],
             [''[red]Incorrect Spelling: '' @ [squote] @ ''teh'' @ [squote]],
             [''Line with Error: '' @ [squote] @ ''teh cat'' @ [squote]]])"
    by (simp add: error_def truthy_str_def)
  with e show ?thesis
    unfolding env_def error_def by blast
qed

section \<open>The operator\<close>

text \<open>
  C8. When the hook answers that the database exists and that the collection exists,
  \<open>execute\<close> makes three calls: the two checks and one \<open>upsert_document\<close> with the
  operator's document, database name and collection name. Nothing is created, and the
  document is upserted once: what \<open>execute\<close> returns, and the state in which it leaves the
  service, are what that one call of \<open>upsert_document\<close> gives in the state left by the two
  checks, an exception of the call included.
\<close>

theorem existing_database_and_collection:
  assumes "AzureCosmosDBHook (azure_cosmos_conn_id self) = Inr hook"
    and "does_database_exist hook (database_name self) h0 = Inr (True, h1)"
    and "does_collection_exist hook (collection_name self) (database_name self) h1
           = Inr (True, h2)"
  shows "execute AzureCosmosDBHook self (h0, []) =
           (case upsert_document hook (document self) (database_name self)
                   (collection_name self) h2 of
              Inl e \<Rightarrow>
                (Inl e, h2,
                 [DoesDatabaseExist (database_name self),
                  DoesCollectionExist (collection_name self) (database_name self),
                  UpsertDocument (document self) (database_name self) (collection_name self)])
            | Inr r \<Rightarrow>
                (Inr (fst r), snd r,
                 [DoesDatabaseExist (database_name self),
                  DoesCollectionExist (collection_name self) (database_name self),
                  UpsertDocument (document self) (database_name self) (collection_name self)]))
       \<and> snd (snd (execute AzureCosmosDBHook self (h0, []))) =
           [DoesDatabaseExist (database_name self),
            DoesCollectionExist (collection_name self) (database_name self),
            UpsertDocument (document self) (database_name self) (collection_name self)]
       \<and> filter is_create (snd (snd (execute AzureCosmosDBHook self (h0, [])))) = []
       \<and> filter is_upsert (snd (snd (execute AzureCosmosDBHook self (h0, [])))) =
           [UpsertDocument (document self) (database_name self) (collection_name self)]"
proof -
  have full: "execute AzureCosmosDBHook self (h0, []) =
           (case upsert_document hook (document self) (database_name self)
                   (collection_name self) h2 of
              Inl e \<Rightarrow>
                (Inl e, h2,
                 [DoesDatabaseExist (database_name self),
                  DoesCollectionExist (collection_name self) (database_name self),
                  UpsertDocument (document self) (database_name self) (collection_name self)])
            | Inr r \<Rightarrow>
                (Inr (fst r), snd r,
                 [DoesDatabaseExist (database_name self),
                  DoesCollectionExist (collection_name self) (database_name self),
                  UpsertDocument (document self) (database_name self) (collection_name self)]))"
    using assms
    by (simp add: execute_def then_run_def invoke_def split: sum.splits prod.splits)
  have "snd (snd (execute AzureCosmosDBHook self (h0, []))) =
           [DoesDatabaseExist (database_name self),
            DoesCollectionExist (collection_name self) (database_name self),
            UpsertDocument (document self) (database_name self) (collection_name self)]"
    unfolding full by (simp split: sum.splits)
  with full show ?thesis by simp
qed

theorem existing_database_and_collection_witness:
  "execute
     (\<lambda>conn_id. Inr
        \<lparr>does_database_exist = (\<lambda>db h. Inr (db \<in> fst h, h)),
         create_database = (\<lambda>db h. Inr ((), insert db (fst h), snd h)),
         does_collection_exist = (\<lambda>c db h. Inr ((db, c) \<in> fst (snd h), h)),
         create_collection =
           (\<lambda>c db h. Inr ((), fst h, insert (db, c) (fst (snd h)), snd (snd h))),
         upsert_document =
           (\<lambda>d db c h. Inr ((), fst h, fst (snd h), (db, c, d) # snd (snd h)))\<rparr>)
     \<lparr>database_name = ''db'', collection_name = ''coll'', document = ''doc'',
      azure_cosmos_conn_id = ''azure_cosmos_default''\<rparr>
     (({''db''}, {(''db'', ''coll'')}, []), [])
   = (Inr (), ({''db''}, {(''db'', ''coll'')}, [(''db'', ''coll'', ''doc'')]),
      [DoesDatabaseExist ''db'', DoesCollectionExist ''coll'' ''db'',
       UpsertDocument ''doc'' ''db'' ''coll''])"
proof -
  define hook :: "(string set \<times> (string \<times> string) set \<times> (string \<times> string \<times> string) list,
                   string) hook"
    where "hook =
        \<lparr>does_database_exist = (\<lambda>db h. Inr (db \<in> fst h, h)),
         create_database = (\<lambda>db h. Inr ((), insert db (fst h), snd h)),
         does_collection_exist = (\<lambda>c db h. Inr ((db, c) \<in> fst (snd h), h)),
         create_collection =
           (\<lambda>c db h. Inr ((), fst h, insert (db, c) (fst (snd h)), snd (snd h))),
         upsert_document =
           (\<lambda>d db c h. Inr ((), fst h, fst (snd h), (db, c, d) # snd (snd h)))\<rparr>"
  define self :: "string AzureCosmosInsertDocumentOperator"
    where "self = \<lparr>database_name = ''db'', collection_name = ''coll'', document = ''doc'',
                    azure_cosmos_conn_id = ''azure_cosmos_default''\<rparr>"
  define h :: "string set \<times> (string \<times> string) set \<times> (string \<times> string \<times> string) list"
    where "h = ({''db''}, {(''db'', ''coll'')}, [])"
  have mk: "(\<lambda>conn_id. Inr hook) (azure_cosmos_conn_id self) = Inr hook"
    by simp
  have db: "does_database_exist hook (database_name self) h = Inr (True, h)"
    by (simp add: hook_def self_def h_def)
  have coll: "does_collection_exist hook (collection_name self) (database_name self) h
                = Inr (True, h)"
    by (simp add: hook_def self_def h_def)
  have "execute (\<lambda>conn_id. Inr hook) self (h, []) =
          (Inr (), ({''db''}, {(''db'', ''coll'')}, [(''db'', ''coll'', ''doc'')]),
           [DoesDatabaseExist ''db'', DoesCollectionExist ''coll'' ''db'',
            UpsertDocument ''doc'' ''db'' ''coll''])"
    using existing_database_and_collection [OF mk db coll]
    by (simp add: hook_def self_def h_def)
  then show ?thesis
    unfolding hook_def self_def h_def .
qed

end
